theory Spec2Isabelle
  imports Complex_Main "HOL-Library.Multiset"
begin

section \<open>The batch processor (batch\_processor.py)\<close>

text \<open>
  A worker agent (\<open>LinkedInSourcingAgent\<close>) is an opaque, stateful object; the model
  keeps its identity only. The result of the unit of work is a Python dictionary.
\<close>

type_synonym agent = nat

datatype pyval = PInt int | PStr string | PList "pyval list" | PDict "(string \<times> pyval) list"

type_synonym result_dict = "(string \<times> pyval) list"

record job_request =
  job_id :: string
  job_description :: string
  company_name :: "string option"
  position_title :: "string option"
  location :: "string option"
  max_candidates :: int
  priority :: int
  created_at :: int

record job_result =
  job_id :: string
  success :: bool
  result :: "result_dict option"
  error :: "string option"
  processing_time :: real
  candidates_found :: pyval
  completed_at :: int

record stats =
  jobs_submitted :: int
  jobs_completed :: int
  jobs_failed :: int
  total_processing_time :: real
  average_processing_time :: real

text \<open>
  What \<open>agent.process_job\<close> does is outside the batch processor: it returns a dictionary
  (or \<open>None\<close>), or raises an \<open>Exception\<close> whose \<open>str\<close> is the given text.
\<close>

datatype outcome = Returned "result_dict option" | Raised string

text \<open>
  Where a worker thread stands in \<open>_worker_loop\<close>: at the loop head (line 126), inside
  \<open>job_queue.get\<close> (129), holding a job and waiting for an agent (133), inside the inner
  \<open>try\<close> with an agent (135-163), about to put its result (169), about to update the
  statistics (172), about to call \<open>task_done\<close> (188), or past the loop.
\<close>

datatype worker =
    Idle
  | Fetching
  | Fetched job_request
  | Executing job_request agent
  | Publishing job_result real
  | Updating job_result real
  | Marking
  | Stopped

record batch_processor =
  max_workers :: int
  max_queue_size :: int
  job_queue :: "job_request list"
  unfinished_tasks :: nat
  results_queue :: "job_result list"
  workers :: "worker list"
  is_running :: bool
  stats :: stats
  agents_pool :: "agent list"

text \<open>\<open>queue.Queue(maxsize)\<close> is bounded only when \<open>maxsize > 0\<close>.\<close>

definition queue_full :: "int \<Rightarrow> 'a list \<Rightarrow> bool" where
  "queue_full maxsize items = (0 < maxsize \<and> maxsize \<le> int (length items))"

definition init :: "int \<Rightarrow> int \<Rightarrow> batch_processor" where
  "init mw mq =
     \<lparr>max_workers = mw, max_queue_size = mq, job_queue = [], unfinished_tasks = 0,
      results_queue = [], workers = [], is_running = False,
      stats = \<lparr>jobs_submitted = 0, jobs_completed = 0, jobs_failed = 0,
               total_processing_time = 0, average_processing_time = 0\<rparr>,
      agents_pool = [0 ..< nat mw]\<rparr>"

text \<open>\<open>result.get('candidates_found', 0) if result else 0\<close>\<close>

definition candidates_of :: "result_dict option \<Rightarrow> pyval" where
  "candidates_of res =
     (case res of
        None \<Rightarrow> PInt 0
      | Some d \<Rightarrow> if d = [] then PInt 0
                  else (case map_of d ''candidates_found'' of Some v \<Rightarrow> v | None \<Rightarrow> PInt 0))"

text \<open>Lines 135-162: the job result built on each path of the inner \<open>try\<close>.\<close>

definition make_result :: "job_request \<Rightarrow> outcome \<Rightarrow> real \<Rightarrow> int \<Rightarrow> job_result" where
  "make_result job_request out ptime now =
     (case out of
        Returned res \<Rightarrow>
          \<lparr>job_id = job_request.job_id job_request, success = True, result = res, error = None,
           processing_time = ptime, candidates_found = candidates_of res, completed_at = now\<rparr>
      | Raised msg \<Rightarrow>
          \<lparr>job_id = job_request.job_id job_request, success = False, result = None,
           error = Some (''Error processing job '' @ job_request.job_id job_request @ '': '' @ msg),
           processing_time = ptime, candidates_found = PInt 0, completed_at = now\<rparr>)"

text \<open>Lines 172-185, under the lock.\<close>

definition update_statistics :: "stats \<Rightarrow> job_result \<Rightarrow> real \<Rightarrow> stats" where
  "update_statistics st job_result ptime =
     (let st1 = st\<lparr>jobs_completed := jobs_completed st + 1\<rparr>;
          st2 = st1\<lparr>total_processing_time := total_processing_time st1 + ptime\<rparr>;
          st3 = (if success job_result
                 then st2\<lparr>jobs_completed := jobs_completed st2 + 1\<rparr>
                 else st2\<lparr>jobs_failed := jobs_failed st2 + 1\<rparr>);
          completed = jobs_completed st3 + jobs_failed st3
      in if completed > 0
         then st3\<lparr>average_processing_time := total_processing_time st3 / real_of_int completed\<rparr>
         else st3)"

text \<open>
  The atomic actions of a run. A blocking call with a timeout is two events: its success,
  and its timeout, which can only occur while the queue it waits on is empty (or full, for
  a \<open>put\<close>). \<open>Stop_Workers\<close> sets the flag; its \<open>join\<close>s only wait. Events of worker \<open>i\<close>
  carry the index of the thread in \<open>self.workers\<close>.
\<close>

datatype event =
    Start_Workers
  | Stop_Workers
  | Submit job_request
  | Submit_Timeout job_request
  | Enter nat
  | Exit nat
  | Fetch nat
  | Fetch_Timeout nat
  | Acquire nat
  | Acquire_Timeout nat
  | Execute nat outcome real int
  | Publish nat
  | Update_Stats nat
  | Task_Done nat

definition worker_at :: "batch_processor \<Rightarrow> nat \<Rightarrow> worker option" where
  "worker_at s i = (if i < length (workers s) then Some (workers s ! i) else None)"

definition set_worker :: "batch_processor \<Rightarrow> nat \<Rightarrow> worker \<Rightarrow> batch_processor" where
  "set_worker s i w = s\<lparr>workers := (workers s)[i := w]\<rparr>"

fun step :: "event \<Rightarrow> batch_processor \<Rightarrow> batch_processor option" where
  "step Start_Workers s =
     (if is_running s then Some s
      else Some (s\<lparr>is_running := True,
                   workers := workers s @ replicate (nat (max_workers s)) Idle\<rparr>))"
| "step Stop_Workers s =
     (if \<not> is_running s then Some s else Some (s\<lparr>is_running := False\<rparr>))"
| "step (Submit job_request) s =
     (if queue_full (max_queue_size s) (job_queue s) then None
      else Some (s\<lparr>job_queue := job_queue s @ [job_request],
                   unfinished_tasks := unfinished_tasks s + 1,
                   stats := (stats s)\<lparr>jobs_submitted := jobs_submitted (stats s) + 1\<rparr>\<rparr>))"
| "step (Submit_Timeout job_request) s =
     (if queue_full (max_queue_size s) (job_queue s) then Some s else None)"
| "step (Enter i) s =
     (case worker_at s i of
        Some Idle \<Rightarrow> if is_running s then Some (set_worker s i Fetching) else None
      | _ \<Rightarrow> None)"
| "step (Exit i) s =
     (case worker_at s i of
        Some Idle \<Rightarrow> if is_running s then None else Some (set_worker s i Stopped)
      | _ \<Rightarrow> None)"
| "step (Fetch i) s =
     (case worker_at s i of
        Some Fetching \<Rightarrow>
          (case job_queue s of
             [] \<Rightarrow> None
           | job_request # rest \<Rightarrow> Some (set_worker (s\<lparr>job_queue := rest\<rparr>) i (Fetched job_request)))
      | _ \<Rightarrow> None)"
| "step (Fetch_Timeout i) s =
     (case worker_at s i of
        Some Fetching \<Rightarrow> if job_queue s = [] then Some (set_worker s i Idle) else None
      | _ \<Rightarrow> None)"
| "step (Acquire i) s =
     (case worker_at s i of
        Some (Fetched job_request) \<Rightarrow>
          (case agents_pool s of
             [] \<Rightarrow> None
           | agent # rest \<Rightarrow>
               Some (set_worker (s\<lparr>agents_pool := rest\<rparr>) i (Executing job_request agent)))
      | _ \<Rightarrow> None)"
| "step (Acquire_Timeout i) s =
     (case worker_at s i of
        Some (Fetched job_request) \<Rightarrow>
          if agents_pool s = [] then Some (set_worker s i Idle) else None
      | _ \<Rightarrow> None)"
| "step (Execute i out ptime now) s =
     (case worker_at s i of
        Some (Executing job_request agent) \<Rightarrow>
          if queue_full (max_workers s) (agents_pool s) then None
          else Some (set_worker (s\<lparr>agents_pool := agents_pool s @ [agent]\<rparr>) i
                       (Publishing (make_result job_request out ptime now) ptime))
      | _ \<Rightarrow> None)"
| "step (Publish i) s =
     (case worker_at s i of
        Some (Publishing job_result ptime) \<Rightarrow>
          Some (set_worker (s\<lparr>results_queue := results_queue s @ [job_result]\<rparr>) i
                  (Updating job_result ptime))
      | _ \<Rightarrow> None)"
| "step (Update_Stats i) s =
     (case worker_at s i of
        Some (Updating job_result ptime) \<Rightarrow>
          Some (set_worker (s\<lparr>stats := update_statistics (stats s) job_result ptime\<rparr>) i Marking)
      | _ \<Rightarrow> None)"
| "step (Task_Done i) s =
     (case worker_at s i of
        Some Marking \<Rightarrow>
          Some (set_worker
                  (if unfinished_tasks s = 0 then s
                   else s\<lparr>unfinished_tasks := unfinished_tasks s - 1\<rparr>) i Idle)
      | _ \<Rightarrow> None)"

text \<open>A run: the events in order; \<open>None\<close> when one of them cannot occur where it stands.\<close>

fun run :: "event list \<Rightarrow> batch_processor \<Rightarrow> batch_processor option" where
  "run [] s = Some s"
| "run (e # es) s = (case step e s of None \<Rightarrow> None | Some s' \<Rightarrow> run es s')"

subsection \<open>The cooperative scheduler (AsyncBatchProcessor)\<close>

text \<open>
  A task created by \<open>process_jobs\<close>: not yet past the semaphore, running the unit of work
  in the executor with the agent it selected (\<open>None\<close> when the selection itself raised,
  which needs an empty list of agents), or finished.
\<close>

datatype task = Pending job_request | Running job_request "agent option" | Finished

record async_batch_processor =
  max_concurrent :: int
  semaphore :: int
  jobs :: "job_request list"
  results :: "job_result list"
  agents :: "agent list"
  tasks :: "task list"

text \<open>\<open>asyncio.Semaphore\<close> raises \<open>ValueError\<close> for a negative initial value.\<close>

definition async_init :: "int \<Rightarrow> async_batch_processor option" where
  "async_init mc =
     (if mc < 0 then None
      else Some \<lparr>max_concurrent = mc, semaphore = mc, jobs = [], results = [],
                  agents = [0 ..< nat mc], tasks = []\<rparr>)"

text \<open>\<open>process_jobs\<close> up to \<open>gather\<close>: one task per job request.\<close>

definition process_jobs_start ::
  "async_batch_processor \<Rightarrow> job_request list \<Rightarrow> async_batch_processor" where
  "process_jobs_start p job_requests =
     p\<lparr>jobs := job_requests, results := [], tasks := map Pending job_requests\<rparr>"

text \<open>\<open>self.agents[len(self.results) % len(self.agents)]\<close>; \<open>None\<close> is \<open>ZeroDivisionError\<close>.\<close>

definition select_agent :: "async_batch_processor \<Rightarrow> agent option" where
  "select_agent p =
     (if agents p = [] then None
      else Some (agents p ! (length (results p) mod length (agents p))))"

text \<open>
  The event loop runs a task without interruption between two \<open>await\<close>s that suspend:
  \<open>Admit\<close> is a task passing the semaphore, selecting its agent and handing the job to
  the executor; \<open>Complete\<close> is its resumption with the outcome of the unit of work, up to
  the release of the semaphore.
\<close>

definition is_raised :: "outcome \<Rightarrow> bool" where
  "is_raised out = (case out of Raised msg \<Rightarrow> True | Returned res \<Rightarrow> False)"

datatype async_event = Admit nat | Complete nat outcome real int

fun async_step :: "async_event \<Rightarrow> async_batch_processor \<Rightarrow> async_batch_processor option" where
  "async_step (Admit i) p =
     (if i < length (tasks p) then
        (case tasks p ! i of
           Pending job_request \<Rightarrow>
             if semaphore p > 0
             then Some (p\<lparr>semaphore := semaphore p - 1,
                          tasks := (tasks p)[i := Running job_request (select_agent p)]\<rparr>)
             else None
         | _ \<Rightarrow> None)
      else None)"
| "async_step (Complete i out ptime now) p =
     (if i < length (tasks p) then
        (case tasks p ! i of
           Running job_request a \<Rightarrow>
             if a = None \<and> \<not> is_raised out then None
             else Some (p\<lparr>results := results p @ [make_result job_request out ptime now],
                          semaphore := semaphore p + 1,
                          tasks := (tasks p)[i := Finished]\<rparr>)
         | _ \<Rightarrow> None)
      else None)"

fun async_run ::
  "async_event list \<Rightarrow> async_batch_processor \<Rightarrow> async_batch_processor option" where
  "async_run [] p = Some p"
| "async_run (e # es) p = (case async_step e p of None \<Rightarrow> None | Some p' \<Rightarrow> async_run es p')"

subsection \<open>Resources checked out\<close>

definition held_by :: "worker \<Rightarrow> agent multiset" where
  "held_by w = (case w of Executing job_request agent \<Rightarrow> {#agent#} | _ \<Rightarrow> {#})"

definition checked_out :: "batch_processor \<Rightarrow> agent multiset" where
  "checked_out s = sum_list (map held_by (workers s))"

definition example_job :: "string \<Rightarrow> job_request" where
  "example_job name =
     \<lparr>job_request.job_id = name, job_description = ''Senior Backend Engineer'',
      company_name = None, position_title = None, location = None, max_candidates = 20,
      priority = 1, created_at = 0\<rparr>"


definition pool_inv :: "batch_processor \<Rightarrow> bool" where
  "pool_inv s = (mset (agents_pool s) + checked_out s = mset [0 ..< nat (max_workers s)])"


subsection \<open>Example runs\<close>

definition dropped_job_run :: "event list" where
  "dropped_job_run =
     [Start_Workers, Submit (example_job ''A''), Enter 0, Fetch 0, Acquire 0,
      Stop_Workers, Start_Workers, Submit (example_job ''B''), Enter 1, Fetch 1,
      Acquire_Timeout 1,
      Execute 0 (Returned None) 40 7, Publish 0, Update_Stats 0, Task_Done 0]"

definition one_job_run :: "event list" where
  "one_job_run =
     [Start_Workers, Submit (example_job ''A''), Enter 0, Fetch 0, Acquire 0,
      Execute 0 (Returned None) 40 7, Publish 0, Update_Stats 0, Task_Done 0]"


definition executing_run :: "event list" where
  "executing_run = [Start_Workers, Submit (example_job ''A''), Enter 0, Fetch 0, Acquire 0]"


section \<open>The cache store (smart\_cache.py)\<close>

text \<open>
  The class \<open>SmartCache\<close> keeps one SQLite table, \<open>cache\<close>, whose column \<open>key\<close> is the
  primary key. The table is modelled as the list of its rows. A timestamp is an instant
  counted in microseconds (the resolution of Python's \<open>datetime\<close>) from
  0001-01-01T00:00:00; the source stores and compares the \<open>isoformat()\<close> strings of such
  instants, and those strings (four-digit years, fixed-width fields, an optional fraction
  after the seconds) are ordered as the instants are.
\<close>

record row =
  key :: string
  data :: string
  cache_type :: string
  created_at :: int
  expires_at :: int
  access_count :: int
  last_accessed :: int

text \<open>
  What the source catches with \<open>except Exception\<close>: an error of the storage layer
  (\<open>sqlite3.Error\<close>), a payload that \<open>json\<close> cannot encode or decode, and a date
  beyond the range of \<open>datetime\<close>.
\<close>

datatype error = StorageError | SerializationError | OverflowError

text \<open>The calls into \<open>sqlite3\<close>; an oracle \<open>fails\<close> says which of them raise.\<close>

datatype db_call =
  Connect | Execute_Select | Execute_Update | Execute_Insert | Execute_Delete | Commit | Close

datatype log_record = LogInfo string | LogError string error

record cache_state =
  cache_table :: "row list"
  logger :: "log_record list"

text \<open>
  The library functions the cache calls are parameters: \<open>hashlib.md5(..).hexdigest()\<close>,
  \<open>json.dumps\<close> and \<open>json.loads\<close>. A payload is a Python value; Python's \<open>None\<close>
  is the \<open>None\<close> of \<open>'p option\<close>, as in the source's \<open>Optional[Any]\<close>.
\<close>

record 'p library =
  md5_hexdigest :: "string \<Rightarrow> string"
  json_dumps :: "'p option \<Rightarrow> error + string"
  json_loads :: "string \<Rightarrow> error + 'p option"

definition expiration_times :: "string \<rightharpoonup> int" where
  "expiration_times =
     [''linkedin_profile'' \<mapsto> 24,
      ''github_profile'' \<mapsto> 12,
      ''github_repos'' \<mapsto> 6,
      ''twitter_profile'' \<mapsto> 24,
      ''website_data'' \<mapsto> 48,
      ''search_results'' \<mapsto> 2,
      ''job_analysis'' \<mapsto> 168]"

definition generate_cache_key :: "'p library \<Rightarrow> string \<Rightarrow> string \<Rightarrow> string" where
  "generate_cache_key lib data_type identifier =
     md5_hexdigest lib (data_type @ '':'' @ identifier)"

text \<open>\<open>timedelta(hours=h)\<close> in microseconds.\<close>

definition timedelta_hours :: "int \<Rightarrow> int" where
  "timedelta_hours h = h * 3600000000"

text \<open>
  \<open>datetime.max\<close> is 9999-12-31T23:59:59.999999, the last microsecond of day 3652059;
  adding a \<open>timedelta\<close> raises \<open>OverflowError\<close> when the sum leaves the range.
\<close>

definition datetime_end :: int where
  "datetime_end = 3652059 * 86400000000"

definition datetime_add :: "int \<Rightarrow> int \<Rightarrow> error + int" where
  "datetime_add t d =
     (if 0 \<le> t + d \<and> t + d < datetime_end then Inr (t + d) else Inl OverflowError)"

subsection \<open>The SQL statements\<close>

text \<open>\<open>SELECT data, expires_at FROM cache WHERE key = ? AND expires_at > ?\<close>, \<open>fetchone()\<close>.\<close>

definition select_valid :: "row list \<Rightarrow> string \<Rightarrow> int \<Rightarrow> row option" where
  "select_valid tbl k now = find (\<lambda>r. key r = k \<and> expires_at r > now) tbl"

text \<open>\<open>UPDATE cache SET access_count = access_count + 1, last_accessed = ? WHERE key = ?\<close>\<close>

definition update_access :: "row list \<Rightarrow> string \<Rightarrow> int \<Rightarrow> row list" where
  "update_access tbl k now =
     map (\<lambda>r. if key r = k
               then r\<lparr>access_count := access_count r + 1, last_accessed := now\<rparr>
               else r) tbl"

text \<open>\<open>INSERT OR REPLACE INTO cache (...) VALUES (...)\<close>: a row with the same primary key
  is deleted before the new row is inserted.\<close>

definition insert_or_replace :: "row list \<Rightarrow> row \<Rightarrow> row list" where
  "insert_or_replace tbl r = filter (\<lambda>x. key x \<noteq> key r) tbl @ [r]"

text \<open>\<open>DELETE FROM cache WHERE expires_at <= ?\<close> and its \<open>rowcount\<close>.\<close>

definition delete_expired :: "row list \<Rightarrow> int \<Rightarrow> row list" where
  "delete_expired tbl now = filter (\<lambda>r. \<not> expires_at r \<le> now) tbl"

definition expired_rowcount :: "row list \<Rightarrow> int \<Rightarrow> int" where
  "expired_rowcount tbl now = int (length (filter (\<lambda>r. expires_at r \<le> now) tbl))"

definition log_append :: "cache_state \<Rightarrow> log_record \<Rightarrow> cache_state" where
  "log_append s m = s\<lparr>logger := logger s @ [m]\<rparr>"

subsection \<open>get\<close>

text \<open>
  The \<open>try\<close> block of \<open>get\<close>: its outcome (\<open>Inl\<close> when it raises) and the state it leaves.
  \<open>now1\<close> and \<open>now2\<close> are the two readings of \<open>datetime.now()\<close>, in the order the source
  takes them. Changes become visible at \<open>commit()\<close>; an exception before it leaves the
  table as it was.
\<close>

definition get_try ::
  "'p library \<Rightarrow> (db_call \<Rightarrow> bool) \<Rightarrow> int \<Rightarrow> int \<Rightarrow> string \<Rightarrow> string \<Rightarrow> cache_state
     \<Rightarrow> (error + 'p option) \<times> cache_state" where
  "get_try lib fails now1 now2 data_type identifier s =
     (if fails Connect then (Inl StorageError, s)
      else
        let cache_key = generate_cache_key lib data_type identifier in
        if fails Execute_Select then (Inl StorageError, s)
        else
          (case select_valid (cache_table s) cache_key now1 of
             Some found \<Rightarrow>
               if fails Execute_Update then (Inl StorageError, s)
               else if fails Commit then (Inl StorageError, s)
               else
                 let s1 = s\<lparr>cache_table := update_access (cache_table s) cache_key now2\<rparr> in
                 if fails Close then (Inl StorageError, s1)
                 else
                   let s2 = log_append s1
                              (LogInfo (''Cache HIT for '' @ data_type @ '':'' @ identifier)) in
                   (case json_loads lib (data found) of
                      Inl e \<Rightarrow> (Inl e, s2)
                    | Inr v \<Rightarrow> (Inr v, s2))
           | None \<Rightarrow>
               if fails Close then (Inl StorageError, s)
               else
                 (Inr None,
                  log_append s (LogInfo (''Cache MISS for '' @ data_type @ '':'' @ identifier)))))"

text \<open>\<open>except Exception as e: logger.error(...); return None\<close>\<close>

definition get ::
  "'p library \<Rightarrow> (db_call \<Rightarrow> bool) \<Rightarrow> int \<Rightarrow> int \<Rightarrow> string \<Rightarrow> string \<Rightarrow> cache_state
     \<Rightarrow> 'p option \<times> cache_state" where
  "get lib fails now1 now2 data_type identifier s =
     (case get_try lib fails now1 now2 data_type identifier s of
        (Inr v, s') \<Rightarrow> (v, s')
      | (Inl e, s') \<Rightarrow> (None, log_append s' (LogError ''Error getting from cache'' e)))"

subsection \<open>set\<close>

text \<open>
  \<open>custom_expiration or self.expiration_times.get(data_type, 24)\<close>: Python's \<open>or\<close>
  yields its left operand when that is truthy, so both \<open>None\<close> and \<open>0\<close> select the
  default of the namespace.
\<close>

definition expiration_hours :: "string \<Rightarrow> int option \<Rightarrow> int" where
  "expiration_hours data_type custom_expiration =
     (case custom_expiration of
        Some h \<Rightarrow> if h \<noteq> 0 then h
                  else (case expiration_times data_type of Some d \<Rightarrow> d | None \<Rightarrow> 24)
      | None \<Rightarrow> (case expiration_times data_type of Some d \<Rightarrow> d | None \<Rightarrow> 24))"

text \<open>
  The \<open>try\<close> block of \<open>set\<close>. \<open>now1\<close>, \<open>now2\<close>, \<open>now3\<close> are the three readings of
  \<open>datetime.now()\<close>: for the expiration, for \<open>created_at\<close> and for \<open>last_accessed\<close>.
\<close>

definition set_try ::
  "'p library \<Rightarrow> (db_call \<Rightarrow> bool) \<Rightarrow> int \<Rightarrow> int \<Rightarrow> int \<Rightarrow> string \<Rightarrow> string \<Rightarrow> 'p option
     \<Rightarrow> int option \<Rightarrow> cache_state \<Rightarrow> (error + unit) \<times> cache_state" where
  "set_try lib fails now1 now2 now3 data_type identifier payload custom_expiration s =
     (if fails Connect then (Inl StorageError, s)
      else
        let cache_key = generate_cache_key lib data_type identifier;
            hours = expiration_hours data_type custom_expiration in
        (case datetime_add now1 (timedelta_hours hours) of
           Inl e \<Rightarrow> (Inl e, s)
         | Inr expires \<Rightarrow>
             (case json_dumps lib payload of
                Inl e \<Rightarrow> (Inl e, s)
              | Inr text \<Rightarrow>
                  if fails Execute_Insert then (Inl StorageError, s)
                  else if fails Commit then (Inl StorageError, s)
                  else
                    let s1 = s\<lparr>cache_table :=
                                 insert_or_replace (cache_table s)
                                   \<lparr>key = cache_key, data = text, cache_type = data_type,
                                    created_at = now2, expires_at = expires,
                                    access_count = 0, last_accessed = now3\<rparr>\<rparr> in
                    if fails Close then (Inl StorageError, s1)
                    else
                      (Inr (),
                       log_append s1
                         (LogInfo (''Cached '' @ data_type @ '':'' @ identifier))))))"

definition set_cache ::
  "'p library \<Rightarrow> (db_call \<Rightarrow> bool) \<Rightarrow> int \<Rightarrow> int \<Rightarrow> int \<Rightarrow> string \<Rightarrow> string \<Rightarrow> 'p option
     \<Rightarrow> int option \<Rightarrow> cache_state \<Rightarrow> cache_state" where
  "set_cache lib fails now1 now2 now3 data_type identifier payload custom_expiration s =
     (case set_try lib fails now1 now2 now3 data_type identifier payload custom_expiration s of
        (Inr u, s') \<Rightarrow> s'
      | (Inl e, s') \<Rightarrow> log_append s' (LogError ''Error setting cache'' e))"

subsection \<open>clear\_expired\<close>

definition clear_expired_try ::
  "(db_call \<Rightarrow> bool) \<Rightarrow> int \<Rightarrow> cache_state \<Rightarrow> (error + int) \<times> cache_state" where
  "clear_expired_try fails now s =
     (if fails Connect then (Inl StorageError, s)
      else if fails Execute_Delete then (Inl StorageError, s)
      else
        let deleted_count = expired_rowcount (cache_table s) now in
        if fails Commit then (Inl StorageError, s)
        else
          let s1 = s\<lparr>cache_table := delete_expired (cache_table s) now\<rparr> in
          if fails Close then (Inl StorageError, s1)
          else (Inr deleted_count, log_append s1 (LogInfo ''Cleared expired cache entries'')))"

definition clear_expired :: "(db_call \<Rightarrow> bool) \<Rightarrow> int \<Rightarrow> cache_state \<Rightarrow> int \<times> cache_state" where
  "clear_expired fails now s =
     (case clear_expired_try fails now s of
        (Inr n, s') \<Rightarrow> (n, s')
      | (Inl e, s') \<Rightarrow> (0, log_append s' (LogError ''Error clearing expired cache'' e)))"

text \<open>No call into \<open>sqlite3\<close> raises.\<close>

definition no_fault :: "db_call \<Rightarrow> bool" where
  "no_fault c = False"


subsection \<open>get\_cache\_stats: the grouped query\<close>

text \<open>
  \<open>SELECT cache_type, COUNT(*), AVG(access_count), MAX(last_accessed) FROM cache GROUP BY
  cache_type\<close>: the rows of one group, and the average of their access counts. The source
  then rounds the average to two decimals in floating point; the model keeps the exact
  quotient.
\<close>

definition group_rows :: "row list \<Rightarrow> string \<Rightarrow> row list" where
  "group_rows tbl ty = filter (\<lambda>r. cache_type r = ty) tbl"

definition avg_access :: "row list \<Rightarrow> string \<Rightarrow> real" where
  "avg_access tbl ty =
     real_of_int (sum_list (map access_count (group_rows tbl ty))) /
     real (length (group_rows tbl ty))"

section \<open>Example data\<close>

text \<open>
  A stand-in for the library functions, used where a statement is evaluated on concrete
  data: the hash is the identity, a string payload is encoded by the prefix \<open>s\<close> and
  \<open>None\<close> by the text \<open>n\<close>.
\<close>

definition example_library :: "string library" where
  "example_library =
     \<lparr>md5_hexdigest = (\<lambda>t. t),
      json_dumps = (\<lambda>p. case p of None \<Rightarrow> Inr ''n'' | Some t \<Rightarrow> Inr (CHR ''s'' # t)),
      json_loads = (\<lambda>t. case t of [] \<Rightarrow> Inl SerializationError
                         | c # u \<Rightarrow> if c = CHR ''s'' then Inr (Some u)
                                    else if t = ''n'' then Inr None
                                    else Inl SerializationError)\<rparr>"

text \<open>
  A second stand-in, for what \<open>json\<close> does to Python values that are not JSON values
  themselves. A payload is a string, a list, a tuple or a set (of one-character strings).
  \<open>json.dumps\<close> writes a tuple as an array, exactly as it writes a list, and
  \<open>json.loads\<close> reads an array as a list: \<open>json.dumps((1, 2))\<close> is the text
  \<open>[1, 2]\<close>, which loads as the list \<open>[1, 2]\<close>. A set is refused by \<open>json.dumps\<close>
  with \<open>TypeError\<close>.
\<close>

datatype example_payload = Py_Str string | Py_List string | Py_Tuple string | Py_Set string

definition json_like_library :: "example_payload library" where
  "json_like_library =
     \<lparr>md5_hexdigest = (\<lambda>t. t),
      json_dumps = (\<lambda>p. case p of
                           None \<Rightarrow> Inr ''n''
                         | Some (Py_Str t) \<Rightarrow> Inr (CHR ''s'' # t)
                         | Some (Py_List t) \<Rightarrow> Inr (CHR ''a'' # t)
                         | Some (Py_Tuple t) \<Rightarrow> Inr (CHR ''a'' # t)
                         | Some (Py_Set t) \<Rightarrow> Inl SerializationError),
      json_loads = (\<lambda>t. case t of [] \<Rightarrow> Inl SerializationError
                         | c # u \<Rightarrow> if c = CHR ''s'' then Inr (Some (Py_Str u))
                                    else if c = CHR ''a'' then Inr (Some (Py_List u))
                                    else if t = ''n'' then Inr None
                                    else Inl SerializationError)\<rparr>"

definition empty_cache :: cache_state where
  "empty_cache = \<lparr>cache_table = [], logger = []\<rparr>"

definition example_row :: row where
  "example_row =
     \<lparr>key = ''search_results:q'', data = ''spayload'', cache_type = ''search_results'',
      created_at = 0, expires_at = 10, access_count = 7, last_accessed = 4\<rparr>"

definition example_cache :: cache_state where
  "example_cache = \<lparr>cache_table = [example_row], logger = []\<rparr>"

text \<open>Three rows that have expired at instant 10 and two that have not.\<close>

definition sweep_rows :: "row list" where
  "sweep_rows =
     [example_row\<lparr>key := ''a'', expires_at := 3\<rparr>,
      example_row\<lparr>key := ''b'', expires_at := 20\<rparr>,
      example_row\<lparr>key := ''c'', expires_at := 10\<rparr>,
      example_row\<lparr>key := ''search_results:q'', expires_at := 11\<rparr>,
      example_row\<lparr>key := ''e'', expires_at := 0\<rparr>]"

text \<open>The storage layer cannot be reached: \<open>sqlite3.connect\<close> raises.\<close>

definition connect_fails :: "db_call \<Rightarrow> bool" where
  "connect_fails c = (c = Connect)"

section \<open>Properties of the cache store\<close>

subsection \<open>The SQL statements on lists of rows\<close>

lemma find_insert_or_replace:
  "find (\<lambda>x. key x = key r \<and> P x) (insert_or_replace tbl r) = (if P r then Some r else None)"
  by (induction tbl) (auto simp: insert_or_replace_def)

lemma filter_key_insert_or_replace:
  "filter (\<lambda>x. key x = key r) (insert_or_replace tbl r) = [r]"
  by (induction tbl) (auto simp: insert_or_replace_def)

lemma filter_other_insert_or_replace:
  "filter (\<lambda>x. key x \<noteq> key r) (insert_or_replace tbl r) = filter (\<lambda>x. key x \<noteq> key r) tbl"
  by (induction tbl) (auto simp: insert_or_replace_def)

lemma distinct_insert_or_replace:
  "distinct (map key tbl) \<Longrightarrow> distinct (map key (insert_or_replace tbl r))"
  by (auto simp: insert_or_replace_def distinct_map_filter)

lemma select_valid_None:
  "(\<forall>r\<in>set tbl. key r = k \<longrightarrow> expires_at r \<le> now) \<Longrightarrow> select_valid tbl k now = None"
  by (induction tbl) (auto simp: select_valid_def)

lemma select_valid_Some:
  "distinct (map key tbl) \<Longrightarrow> r \<in> set tbl \<Longrightarrow> now < expires_at r
     \<Longrightarrow> select_valid tbl (key r) now = Some r"
  by (induction tbl) (auto simp: select_valid_def)

lemma select_valid_delete_expired:
  "now \<le> now1 \<Longrightarrow> select_valid (delete_expired tbl now) k now1 = select_valid tbl k now1"
  by (induction tbl) (auto simp: select_valid_def delete_expired_def)

lemma length_filter_split:
  "length (filter P xs) + length (filter (\<lambda>x. \<not> P x) xs) = length xs"
  by (induction xs) auto

subsection \<open>The operations when nothing raises\<close>

lemma set_cache_ok:
  assumes "datetime_add now1 (timedelta_hours (expiration_hours data_type custom_expiration)) =
             Inr expires"
    and "json_dumps lib payload = Inr encoded"
  shows "set_cache lib no_fault now1 now2 now3 data_type ident payload custom_expiration s =
     log_append (s\<lparr>cache_table :=
         insert_or_replace (cache_table s)
            \<lparr>key = generate_cache_key lib data_type ident, data = encoded,
             cache_type = data_type, created_at = now2, expires_at = expires,
             access_count = 0, last_accessed = now3\<rparr>\<rparr>)
        (LogInfo (''Cached '' @ data_type @ '':'' @ ident))"
  using assms by (simp add: set_cache_def set_try_def no_fault_def Let_def)

lemma get_miss:
  assumes "select_valid (cache_table s) (generate_cache_key lib data_type ident) now1 = None"
  shows "fst (get lib fails now1 now2 data_type ident s) = None"
    and "cache_table (snd (get lib fails now1 now2 data_type ident s)) = cache_table s"
  using assms by (simp_all add: get_def get_try_def Let_def log_append_def)

lemma get_hit:
  assumes "select_valid (cache_table s) (generate_cache_key lib data_type ident) now1 = Some r"
    and "json_loads lib (data r) = Inr v"
  shows "fst (get lib no_fault now1 now2 data_type ident s) = v"
  using assms by (simp add: get_def get_try_def Let_def log_append_def no_fault_def)

lemma clear_expired_ok:
  "clear_expired no_fault now s =
     (expired_rowcount (cache_table s) now,
      log_append (s\<lparr>cache_table := delete_expired (cache_table s) now\<rparr>)
        (LogInfo ''Cleared expired cache entries''))"
  by (simp add: clear_expired_def clear_expired_try_def no_fault_def Let_def)

subsection \<open>Round trip\<close>

text \<open>
  Claim C3, as stated, at a payload that \<open>json\<close> encodes but does not give back: the
  tuple stored by \<open>set\<close> is returned by the \<open>get\<close> that follows as a list, which is not
  equal to the tuple.
\<close>

theorem set_then_get_tuple_counterexample:
  "fst (get json_like_library no_fault 5 6 ''search_results'' ''q''
          (set_cache json_like_library no_fault 1 2 3 ''search_results'' ''q''
             (Some (Py_Tuple ''ab'')) None empty_cache)) = Some (Py_List ''ab'')
   \<and> Some (Py_List ''ab'') \<noteq> Some (Py_Tuple ''ab'')"
  by (simp add: set_cache_def set_try_def get_def get_try_def no_fault_def expiration_hours_def
        expiration_times_def datetime_add_def timedelta_hours_def datetime_end_def
        json_like_library_def empty_cache_def insert_or_replace_def select_valid_def
        log_append_def generate_cache_key_def Let_def)

text \<open>
  Claim C3, amended. For a payload that \<open>json.dumps\<close> encodes (to the text \<open>encoded\<close>),
  when no storage call raises, the expiration that \<open>set\<close> computes lies in the range of
  \<open>datetime\<close> and the clock reading of the \<open>get\<close> is before it, \<open>set\<close> followed by
  \<open>get\<close> of the same namespace and identifier returns \<open>json.loads\<close> of \<open>encoded\<close>,
  whatever the table held before (\<open>None\<close> if that text does not decode). So the payload
  comes back equal to the one stored when the JSON codec round-trips it, and comes back as
  the value the text decodes to, different from the one stored, when it does not.
\<close>

theorem set_then_get_roundtrip:
  assumes "json_dumps lib payload = Inr encoded"
    and "datetime_add t_set (timedelta_hours (expiration_hours data_type custom_expiration)) =
           Inr expires"
    and "t_get < expires"
  shows "fst (get lib no_fault t_get t_touch data_type ident
            (set_cache lib no_fault t_set t_created t_accessed data_type ident payload
               custom_expiration s))
         = (case json_loads lib encoded of Inl e \<Rightarrow> None | Inr v \<Rightarrow> v)
       \<and> (json_loads lib encoded = Inr payload \<longrightarrow>
            fst (get lib no_fault t_get t_touch data_type ident
              (set_cache lib no_fault t_set t_created t_accessed data_type ident payload
                 custom_expiration s))
            = payload)
       \<and> (json_loads lib encoded = Inr v \<and> v \<noteq> payload \<longrightarrow>
            fst (get lib no_fault t_get t_touch data_type ident
              (set_cache lib no_fault t_set t_created t_accessed data_type ident payload
                 custom_expiration s))
            = v \<and>
            fst (get lib no_fault t_get t_touch data_type ident
              (set_cache lib no_fault t_set t_created t_accessed data_type ident payload
                 custom_expiration s))
            \<noteq> payload)"
proof -
  let ?k = "generate_cache_key lib data_type ident"
  let ?r = "\<lparr>key = ?k, data = encoded, cache_type = data_type,
             created_at = t_created, expires_at = expires,
             access_count = 0, last_accessed = t_accessed\<rparr>"
  let ?got = "fst (get lib no_fault t_get t_touch data_type ident
            (set_cache lib no_fault t_set t_created t_accessed data_type ident payload
               custom_expiration s))"
  have sel: "select_valid (insert_or_replace (cache_table s) ?r) ?k t_get = Some ?r"
    using find_insert_or_replace[of ?r "\<lambda>x. expires_at x > t_get" "cache_table s"] assms(3)
    by (simp add: select_valid_def)
  have got: "?got = (case json_loads lib encoded of Inl e \<Rightarrow> None | Inr v \<Rightarrow> v)"
    using sel
    by (simp add: set_cache_ok[OF assms(2) assms(1)] get_def get_try_def no_fault_def
          log_append_def Let_def split: sum.splits)
  show ?thesis
    unfolding got by simp
qed

theorem set_then_get_roundtrip_witness:
  "fst (get example_library no_fault 5 6 ''search_results'' ''q''
          (set_cache example_library no_fault 1 2 3 ''search_results'' ''q''
             (Some ''payload'') None example_cache)) = Some ''payload''
   \<and> fst (get json_like_library no_fault 5 6 ''search_results'' ''q''
          (set_cache json_like_library no_fault 1 2 3 ''search_results'' ''q''
             (Some (Py_Tuple ''ab'')) None example_cache)) = Some (Py_List ''ab'')"
  using set_then_get_roundtrip [where lib = example_library and payload = "Some ''payload''"
          and encoded = "''spayload''" and t_set = 1 and data_type = "''search_results''"
          and custom_expiration = None and expires = "1 + timedelta_hours 2" and t_get = 5
          and t_touch = 6 and ident = "''q''" and t_created = 2 and t_accessed = 3
          and s = example_cache]
    set_then_get_roundtrip [where lib = json_like_library and payload = "Some (Py_Tuple ''ab'')"
          and encoded = "''aab''" and t_set = 1 and data_type = "''search_results''"
          and custom_expiration = None and expires = "1 + timedelta_hours 2" and t_get = 5
          and t_touch = 6 and ident = "''q''" and t_created = 2 and t_accessed = 3
          and s = example_cache and v = "Some (Py_List ''ab'')"]
  by (simp add: example_library_def json_like_library_def datetime_add_def timedelta_hours_def
        datetime_end_def expiration_hours_def expiration_times_def)

subsection \<open>Misses and expiry\<close>

text \<open>
  Claim C4. Whatever the storage layer does, \<open>get\<close> returns \<open>None\<close> and leaves the table as
  it was when no row of the composite key has its expiration strictly after the clock
  reading (the key is absent, or \<open>expires_at \<le> now\<close>). A row of the key with
  \<open>now < expires_at\<close> is a hit: \<open>get\<close> returns its decoded payload. The expired row
  stays in the table until \<open>clear_expired\<close> runs, which removes it.
\<close>

theorem get_misses_absent_or_expired:
  fixes lib :: "'p library"
  shows "((\<forall>r\<in>set (cache_table s). key r = generate_cache_key lib data_type ident \<longrightarrow>
              \<not> now < expires_at r) \<longrightarrow>
            fst (get lib fails now t_touch data_type ident s) = None \<and>
            cache_table (snd (get lib fails now t_touch data_type ident s)) = cache_table s)
       \<and> (distinct (map key (cache_table s)) \<and> r \<in> set (cache_table s) \<and>
            key r = generate_cache_key lib data_type ident \<and>
            now < expires_at r \<and> json_loads lib (data r) = Inr v \<longrightarrow>
            fst (get lib no_fault now t_touch data_type ident s) = v)
       \<and> (r \<in> set (cache_table s) \<and> expires_at r \<le> now \<longrightarrow>
            r \<notin> set (cache_table (snd (clear_expired no_fault now s))))"
proof (intro conjI impI)
  assume a: "\<forall>r\<in>set (cache_table s). key r = generate_cache_key lib data_type ident \<longrightarrow>
              \<not> now < expires_at r"
  then have "select_valid (cache_table s) (generate_cache_key lib data_type ident) now = None"
    by (intro select_valid_None) auto
  then show "fst (get lib fails now t_touch data_type ident s) = None"
    and "cache_table (snd (get lib fails now t_touch data_type ident s)) = cache_table s"
    by (rule get_miss)+
next
  assume a: "distinct (map key (cache_table s)) \<and> r \<in> set (cache_table s) \<and>
            key r = generate_cache_key lib data_type ident \<and>
            now < expires_at r \<and> json_loads lib (data r) = Inr v"
  then have "select_valid (cache_table s) (generate_cache_key lib data_type ident) now =
               Some r"
    using select_valid_Some[of "cache_table s" r now] by auto
  with a show "fst (get lib no_fault now t_touch data_type ident s) = v"
    by (intro get_hit) auto
next
  assume "r \<in> set (cache_table s) \<and> expires_at r \<le> now"
  then show "r \<notin> set (cache_table (snd (clear_expired no_fault now s)))"
    by (simp add: clear_expired_ok log_append_def delete_expired_def)
qed

theorem get_misses_absent_or_expired_witness:
  "fst (get example_library no_fault 10 11 ''search_results'' ''q'' example_cache) = None
   \<and> cache_table (snd (get example_library no_fault 10 11 ''search_results'' ''q'' example_cache))
       = [example_row]
   \<and> fst (get example_library no_fault 9 11 ''search_results'' ''q'' example_cache)
       = Some ''payload''
   \<and> cache_table (snd (clear_expired no_fault 10 example_cache)) = []"
  using get_misses_absent_or_expired [where s = example_cache and lib = example_library
          and data_type = "''search_results''" and ident = "''q''" and now = 10
          and fails = no_fault and t_touch = 11 and r = example_row and v = "Some ''payload''"]
    get_misses_absent_or_expired [where s = example_cache and lib = example_library
          and data_type = "''search_results''" and ident = "''q''" and now = 9
          and fails = no_fault and t_touch = 11 and r = example_row and v = "Some ''payload''"]
  by (simp add: example_cache_def example_row_def example_library_def generate_cache_key_def
        clear_expired_ok delete_expired_def log_append_def)

subsection \<open>The sweep\<close>

text \<open>
  Claim C5. When no storage call raises, \<open>clear_expired\<close> returns the number of rows with
  \<open>expires_at \<le> now\<close>, leaves exactly the rows with \<open>now < expires_at\<close>, in their order,
  removes as many rows as it reports, and every row that has not expired is still returned
  by \<open>get\<close>. On a table with three expired rows and two valid ones it returns 3 and two
  rows remain.
\<close>

theorem clear_expired_removes_exactly_expired:
  fixes lib :: "'p library"
  shows "fst (clear_expired no_fault now s) =
           int (length (filter (\<lambda>r. expires_at r \<le> now) (cache_table s)))
       \<and> cache_table (snd (clear_expired no_fault now s)) =
           filter (\<lambda>r. now < expires_at r) (cache_table s)
       \<and> int (length (cache_table s)) =
           fst (clear_expired no_fault now s) +
           int (length (cache_table (snd (clear_expired no_fault now s))))
       \<and> (distinct (map key (cache_table s)) \<and> r \<in> set (cache_table s) \<and> now < expires_at r \<and>
            key r = generate_cache_key lib data_type ident \<and>
            json_loads lib (data r) = Inr v \<longrightarrow>
            fst (get lib no_fault now t_touch data_type ident
                  (snd (clear_expired no_fault now s))) = v)
       \<and> (length (filter (\<lambda>r. expires_at r \<le> now) (cache_table s)) = 3 \<and>
          length (filter (\<lambda>r. now < expires_at r) (cache_table s)) = 2 \<longrightarrow>
            fst (clear_expired no_fault now s) = 3 \<and>
            length (cache_table (snd (clear_expired no_fault now s))) = 2)"
proof -
  have eq: "(\<lambda>r. \<not> expires_at r \<le> now) = (\<lambda>r. now < expires_at r)"
    by (auto simp: fun_eq_iff)
  have 1: "fst (clear_expired no_fault now s) =
           int (length (filter (\<lambda>r. expires_at r \<le> now) (cache_table s)))"
    by (simp add: clear_expired_ok expired_rowcount_def)
  have 2: "cache_table (snd (clear_expired no_fault now s)) =
           filter (\<lambda>r. now < expires_at r) (cache_table s)"
    by (simp add: clear_expired_ok log_append_def delete_expired_def eq)
  have 3: "int (length (cache_table s)) =
           fst (clear_expired no_fault now s) +
           int (length (cache_table (snd (clear_expired no_fault now s))))"
    unfolding 1 2 using length_filter_split[of "\<lambda>r. expires_at r \<le> now" "cache_table s"]
    by (simp add: eq)
  have 4: "fst (get lib no_fault now t_touch data_type ident
                  (snd (clear_expired no_fault now s))) = v"
    if a: "distinct (map key (cache_table s)) \<and> r \<in> set (cache_table s) \<and> now < expires_at r \<and>
            key r = generate_cache_key lib data_type ident \<and> json_loads lib (data r) = Inr v"
  proof -
    have "select_valid (cache_table s) (key r) now = Some r"
      using a by (intro select_valid_Some) auto
    then have "select_valid (cache_table (snd (clear_expired no_fault now s)))
                 (generate_cache_key lib data_type ident) now = Some r"
      using a by (simp add: clear_expired_ok log_append_def select_valid_delete_expired)
    then show ?thesis using a by (intro get_hit) auto
  qed
  show ?thesis
    using 1 2 3 4 by simp
qed

theorem clear_expired_removes_exactly_expired_witness:
  "fst (clear_expired no_fault 10 \<lparr>cache_table = sweep_rows, logger = []\<rparr>) = 3
   \<and> map key (cache_table (snd (clear_expired no_fault 10
        \<lparr>cache_table = sweep_rows, logger = []\<rparr>))) = [''b'', ''search_results:q'']
   \<and> fst (get example_library no_fault 10 12 ''search_results'' ''q''
        (snd (clear_expired no_fault 10 \<lparr>cache_table = sweep_rows, logger = []\<rparr>)))
       = Some ''payload''"
  using clear_expired_removes_exactly_expired [where now = 10
          and s = "\<lparr>cache_table = sweep_rows, logger = []\<rparr>" and lib = example_library
          and r = "example_row\<lparr>key := ''search_results:q'', expires_at := 11\<rparr>"
          and data_type = "''search_results''" and ident = "''q''" and t_touch = 12
          and v = "Some ''payload''"]
  by (simp add: sweep_rows_def example_row_def example_library_def generate_cache_key_def)


subsection \<open>Overwriting and expiration\<close>

text \<open>
  Claim C6, as stated, at a time-to-live override of 0: Python's \<open>or\<close> takes the 0 for
  "not given", so the entry of namespace \<open>search_results\<close> written at instant 1000 expires
  two hours later (the default of the namespace), not at \<open>1000 + 0\<close>.
\<close>

theorem set_zero_ttl_counterexample:
  "map expires_at (cache_table (set_cache example_library no_fault 1000 1000 1000
        ''search_results'' ''q'' (Some ''payload'') (Some 0) empty_cache)) = [1000 + timedelta_hours 2]
   \<and> 1000 + timedelta_hours 2 \<noteq> 1000 + timedelta_hours 0"
  by (simp add: set_cache_def set_try_def no_fault_def expiration_hours_def expiration_times_def
        datetime_add_def timedelta_hours_def datetime_end_def example_library_def empty_cache_def
        insert_or_replace_def log_append_def generate_cache_key_def Let_def)

text \<open>
  Claim C6, amended. When \<open>json.dumps\<close> encodes the payload, the expiration
  \<open>now + hours\<close> lies in the range of \<open>datetime\<close> and no storage call raises, \<open>set\<close>
  leaves exactly one row for the composite key: the new one, with the encoded payload,
  \<open>access_count\<close> 0 and expiration \<open>now + hours\<close>, where \<open>hours\<close> is the override when one
  is given and is not 0, and otherwise (no override, or 0) the default of the namespace,
  24 hours for a namespace without an entry in \<open>expiration_times\<close>; the rows of all other
  keys are untouched, and the keys of the table stay distinct. When \<open>json.dumps\<close> refuses
  the payload, or \<open>now + hours\<close> lies outside the range of \<open>datetime\<close>, \<open>set\<close> writes
  nothing: the table, with any earlier row of the key, stays as it was.
\<close>

theorem set_overwrites_and_expires:
  fixes lib :: "'p library"
  assumes "hours = (case custom_expiration of
                    Some h \<Rightarrow> if h \<noteq> 0 then h
                              else (case expiration_times data_type of Some d \<Rightarrow> d | None \<Rightarrow> 24)
                  | None \<Rightarrow> (case expiration_times data_type of Some d \<Rightarrow> d | None \<Rightarrow> 24))"
    and "s' = set_cache lib no_fault t_set t_created t_accessed data_type ident payload
                custom_expiration s"
    and "k = generate_cache_key lib data_type ident"
  shows "(json_dumps lib payload = Inr encoded \<and>
          0 \<le> t_set + hours * 3600000000 \<and> t_set + hours * 3600000000 < datetime_end \<longrightarrow>
            filter (\<lambda>r. key r = k) (cache_table s') =
              [\<lparr>key = k, data = encoded, cache_type = data_type, created_at = t_created,
                expires_at = t_set + hours * 3600000000, access_count = 0,
                last_accessed = t_accessed\<rparr>]
          \<and> filter (\<lambda>r. key r \<noteq> k) (cache_table s') =
              filter (\<lambda>r. key r \<noteq> k) (cache_table s)
          \<and> (distinct (map key (cache_table s)) \<longrightarrow> distinct (map key (cache_table s'))))
       \<and> (json_dumps lib payload = Inl e \<or>
          t_set + hours * 3600000000 < 0 \<or> datetime_end \<le> t_set + hours * 3600000000 \<longrightarrow>
            cache_table (set_cache lib fails t_set t_created t_accessed data_type ident payload
                           custom_expiration s) = cache_table s)"
proof (intro conjI impI)
  let ?r = "\<lparr>key = k, data = encoded, cache_type = data_type, created_at = t_created,
             expires_at = t_set + hours * 3600000000, access_count = 0,
             last_accessed = t_accessed\<rparr>"
  have h: "expiration_hours data_type custom_expiration = hours"
    unfolding assms(1) expiration_hours_def by simp
  {
    assume a: "json_dumps lib payload = Inr encoded \<and>
          0 \<le> t_set + hours * 3600000000 \<and> t_set + hours * 3600000000 < datetime_end"
    then have d: "json_dumps lib payload = Inr encoded" by simp
    from a have "datetime_add t_set (timedelta_hours (expiration_hours data_type custom_expiration)) =
          Inr (t_set + hours * 3600000000)"
      by (simp add: h datetime_add_def timedelta_hours_def)
    from set_cache_ok[OF this d]
    have tbl: "cache_table s' = insert_or_replace (cache_table s) ?r"
      by (simp add: assms(2,3) log_append_def)
    have kr: "key ?r = k" by simp
    show "filter (\<lambda>r. key r = k) (cache_table s') = [?r]"
      unfolding tbl using filter_key_insert_or_replace[of ?r "cache_table s"] unfolding kr .
    show "filter (\<lambda>r. key r \<noteq> k) (cache_table s') = filter (\<lambda>r. key r \<noteq> k) (cache_table s)"
      unfolding tbl using filter_other_insert_or_replace[of ?r "cache_table s"] unfolding kr .
    assume "distinct (map key (cache_table s))"
    then show "distinct (map key (cache_table s'))"
      unfolding tbl by (rule distinct_insert_or_replace)
  }
  assume "json_dumps lib payload = Inl e \<or>
          t_set + hours * 3600000000 < 0 \<or> datetime_end \<le> t_set + hours * 3600000000"
  then show "cache_table (set_cache lib fails t_set t_created t_accessed data_type ident payload
                           custom_expiration s) = cache_table s"
    by (auto simp: set_cache_def set_try_def Let_def log_append_def datetime_add_def
          timedelta_hours_def h split: sum.splits)
qed

theorem set_overwrites_and_expires_witness:
  "filter (\<lambda>r. key r = ''search_results:q'')
     (cache_table (set_cache example_library no_fault 20 21 22 ''search_results'' ''q''
        (Some ''new'') (Some 3) example_cache)) =
     [\<lparr>key = ''search_results:q'', data = ''snew'', cache_type = ''search_results'',
       created_at = 21, expires_at = 20 + 3 * 3600000000, access_count = 0, last_accessed = 22\<rparr>]
   \<and> distinct (map key (cache_table (set_cache example_library no_fault 20 21 22
        ''search_results'' ''q'' (Some ''new'') (Some 3) example_cache)))
   \<and> cache_table (set_cache json_like_library no_fault 20 21 22 ''search_results'' ''q''
        (Some (Py_Set ''ab'')) (Some 3) example_cache) = [example_row]
   \<and> cache_table (set_cache example_library no_fault 20 21 22 ''search_results'' ''q''
        (Some ''new'') (Some 100000000000) example_cache) = [example_row]"
  using set_overwrites_and_expires [where lib = example_library and payload = "Some ''new''"
          and encoded = "''snew''" and hours = 3 and custom_expiration = "Some 3"
          and data_type = "''search_results''" and t_set = 20 and t_created = 21
          and t_accessed = 22 and ident = "''q''" and s = example_cache
          and k = "''search_results:q''"
          and s' = "set_cache example_library no_fault 20 21 22 ''search_results'' ''q''
             (Some ''new'') (Some 3) example_cache"]
    set_overwrites_and_expires [where lib = json_like_library
          and payload = "Some (Py_Set ''ab'')" and e = SerializationError
          and hours = 3 and custom_expiration = "Some 3"
          and data_type = "''search_results''" and t_set = 20 and t_created = 21
          and t_accessed = 22 and ident = "''q''" and s = example_cache
          and k = "''search_results:q''" and fails = no_fault
          and s' = "set_cache json_like_library no_fault 20 21 22 ''search_results'' ''q''
             (Some (Py_Set ''ab'')) (Some 3) example_cache"]
    set_overwrites_and_expires [where lib = example_library and payload = "Some ''new''"
          and hours = 100000000000 and custom_expiration = "Some 100000000000"
          and data_type = "''search_results''" and t_set = 20 and t_created = 21
          and t_accessed = 22 and ident = "''q''" and s = example_cache
          and k = "''search_results:q''" and fails = no_fault
          and s' = "set_cache example_library no_fault 20 21 22 ''search_results'' ''q''
             (Some ''new'') (Some 100000000000) example_cache"]
  by (simp add: example_library_def json_like_library_def generate_cache_key_def
        datetime_end_def example_cache_def)

subsection \<open>Errors of the storage layer\<close>

text \<open>
  Claim C7. Whenever the \<open>try\<close> block of an operation raises (any error, at any call),
  the operation returns normally: \<open>get\<close> returns \<open>None\<close>, \<open>set\<close> returns after logging
  the error, \<open>clear_expired\<close> returns 0. In particular a \<open>connect\<close>, a statement or a
  \<open>commit\<close> that raises leaves the table as it was and adds one error record to the log.
\<close>

theorem cache_operations_never_raise:
  fixes lib :: "'p library"
  shows "(fst (get_try lib fails now t_touch data_type ident s) = Inl e \<longrightarrow>
            fst (get lib fails now t_touch data_type ident s) = None)
       \<and> (fails Connect \<or> fails Execute_Select \<longrightarrow>
            get lib fails now t_touch data_type ident s =
              (None, log_append s (LogError ''Error getting from cache'' StorageError)))
       \<and> (fst (set_try lib fails t_set t_created t_accessed data_type ident payload
                  custom_expiration s) = Inl e' \<longrightarrow>
            set_cache lib fails t_set t_created t_accessed data_type ident payload
                custom_expiration s =
              log_append (snd (set_try lib fails t_set t_created t_accessed data_type ident payload
                  custom_expiration s)) (LogError ''Error setting cache'' e'))
       \<and> (fails Connect \<or> fails Execute_Insert \<or> fails Commit \<longrightarrow>
            (\<exists>e''. set_cache lib fails t_set t_created t_accessed data_type ident payload
                custom_expiration s = log_append s (LogError ''Error setting cache'' e'')))
       \<and> (fst (clear_expired_try fails now s) = Inl e''' \<longrightarrow> fst (clear_expired fails now s) = 0)
       \<and> (fails Connect \<or> fails Execute_Delete \<or> fails Commit \<longrightarrow>
            clear_expired fails now s =
              (0, log_append s (LogError ''Error clearing expired cache'' StorageError)))"
proof (intro conjI impI)
  assume "fst (get_try lib fails now t_touch data_type ident s) = Inl e"
  then show "fst (get lib fails now t_touch data_type ident s) = None"
    by (cases "get_try lib fails now t_touch data_type ident s") (simp add: get_def)
next
  assume "fails Connect \<or> fails Execute_Select"
  then show "get lib fails now t_touch data_type ident s =
              (None, log_append s (LogError ''Error getting from cache'' StorageError))"
    by (auto simp: get_def get_try_def Let_def)
next
  assume "fst (set_try lib fails t_set t_created t_accessed data_type ident payload
                  custom_expiration s) = Inl e'"
  then show "set_cache lib fails t_set t_created t_accessed data_type ident payload
                custom_expiration s =
              log_append (snd (set_try lib fails t_set t_created t_accessed data_type ident payload
                  custom_expiration s)) (LogError ''Error setting cache'' e')"
    by (cases "set_try lib fails t_set t_created t_accessed data_type ident payload
                  custom_expiration s") (simp add: set_cache_def)
next
  assume "fails Connect \<or> fails Execute_Insert \<or> fails Commit"
  then show "\<exists>e''. set_cache lib fails t_set t_created t_accessed data_type ident payload
                custom_expiration s = log_append s (LogError ''Error setting cache'' e'')"
    by (auto simp: set_cache_def set_try_def Let_def split: sum.splits)
next
  assume "fst (clear_expired_try fails now s) = Inl e'''"
  then show "fst (clear_expired fails now s) = 0"
    by (cases "clear_expired_try fails now s") (simp add: clear_expired_def)
next
  assume "fails Connect \<or> fails Execute_Delete \<or> fails Commit"
  then show "clear_expired fails now s =
              (0, log_append s (LogError ''Error clearing expired cache'' StorageError))"
    by (auto simp: clear_expired_def clear_expired_try_def Let_def)
qed

theorem cache_operations_never_raise_witness:
  "get example_library connect_fails 5 6 ''search_results'' ''q'' example_cache =
     (None, \<lparr>cache_table = [example_row],
             logger = [LogError ''Error getting from cache'' StorageError]\<rparr>)
   \<and> set_cache example_library connect_fails 5 6 7 ''search_results'' ''q'' (Some ''new'') None
        example_cache =
      \<lparr>cache_table = [example_row], logger = [LogError ''Error setting cache'' StorageError]\<rparr>
   \<and> clear_expired connect_fails 50 example_cache =
     (0, \<lparr>cache_table = [example_row],
          logger = [LogError ''Error clearing expired cache'' StorageError]\<rparr>)"
  using cache_operations_never_raise [where lib = example_library and fails = connect_fails
          and now = 5 and t_touch = 6 and data_type = "''search_results''" and ident = "''q''"
          and s = example_cache and e = StorageError and e' = StorageError
          and e''' = StorageError and t_set = 5 and t_created = 6 and t_accessed = 7
          and payload = "Some ''new''" and custom_expiration = None]
    cache_operations_never_raise [where lib = example_library and fails = connect_fails
          and now = 50 and s = example_cache]
  by (simp add: connect_fails_def get_try_def set_try_def clear_expired_try_def
        example_cache_def log_append_def get_def set_cache_def clear_expired_def)

subsection \<open>Access statistics after a write\<close>

lemma group_rows_append: "group_rows (xs @ ys) ty = group_rows xs ty @ group_rows ys ty"
  by (simp add: group_rows_def)

text \<open>
  Claim C10. After \<open>set\<close> (payload encodable, expiration in range, no storage error) the
  one row of the composite key has \<open>access_count = 0\<close> and \<open>last_accessed\<close> equal to the
  clock reading of the write, whatever count the key had accumulated before; so the average
  access count of the namespace, as \<open>get_cache_stats\<close> computes it, is the sum of the counts
  of the other rows of the namespace over their number plus one.
\<close>

theorem set_resets_access_statistics:
  fixes lib :: "'p library"
  assumes "json_dumps lib payload = Inr encoded"
    and "datetime_add t_set (timedelta_hours (expiration_hours data_type custom_expiration)) =
           Inr expires"
    and "s' = set_cache lib no_fault t_set t_created t_accessed data_type ident payload
                custom_expiration s"
    and "k = generate_cache_key lib data_type ident"
    and "others = group_rows (filter (\<lambda>r. key r \<noteq> k) (cache_table s)) data_type"
  shows "map access_count (filter (\<lambda>r. key r = k) (cache_table s')) = [0]
       \<and> map last_accessed (filter (\<lambda>r. key r = k) (cache_table s')) = [t_accessed]
       \<and> avg_access (cache_table s') data_type =
           real_of_int (sum_list (map access_count others)) / real (length others + 1)"
proof -
  let ?r = "\<lparr>key = k, data = encoded, cache_type = data_type, created_at = t_created,
             expires_at = expires, access_count = 0, last_accessed = t_accessed\<rparr>"
  have tbl: "cache_table s' = insert_or_replace (cache_table s) ?r"
    using set_cache_ok[OF assms(2) assms(1)] by (simp add: assms(3,4) log_append_def)
  have kr: "key ?r = k" by simp
  have f: "filter (\<lambda>r. key r = k) (cache_table s') = [?r]"
    unfolding tbl using filter_key_insert_or_replace[of ?r "cache_table s"] unfolding kr .
  have g: "group_rows (cache_table s') data_type = others @ [?r]"
    unfolding tbl insert_or_replace_def group_rows_append assms(5)
    by (simp add: group_rows_def)
  show ?thesis
    unfolding f avg_access_def g by simp
qed

lemma set_cache_example: "cache_table (set_cache example_library no_fault 5 6 7 ''search_results''
        ''q'' (Some ''new'') None example_cache) =
     [\<lparr>key = ''search_results:q'', data = ''snew'', cache_type = ''search_results'',
       created_at = 6, expires_at = 7200000005, access_count = 0, last_accessed = 7\<rparr>]"
  by (simp add: example_library_def datetime_add_def timedelta_hours_def datetime_end_def
        expiration_hours_def expiration_times_def generate_cache_key_def example_cache_def
        example_row_def set_cache_def set_try_def no_fault_def Let_def
        insert_or_replace_def log_append_def)

theorem set_resets_access_statistics_witness:
  "map access_count (cache_table example_cache) = [7]
   \<and> map access_count (cache_table (set_cache example_library no_fault 5 6 7 ''search_results''
        ''q'' (Some ''new'') None example_cache)) = [0]
   \<and> map last_accessed (cache_table (set_cache example_library no_fault 5 6 7 ''search_results''
        ''q'' (Some ''new'') None example_cache)) = [7]
   \<and> avg_access (cache_table (set_cache example_library no_fault 5 6 7 ''search_results''
        ''q'' (Some ''new'') None example_cache)) ''search_results'' = 0"
proof -
  have a: "json_dumps example_library (Some ''new'') = Inr ''snew''"
    by (simp add: example_library_def)
  have b: "datetime_add 5 (timedelta_hours (expiration_hours ''search_results'' None)) =
             Inr 7200000005"
    by (simp add: datetime_add_def timedelta_hours_def datetime_end_def
        expiration_hours_def expiration_times_def)
  have c: "[] = group_rows (filter (\<lambda>r. key r \<noteq> generate_cache_key example_library
               ''search_results'' ''q'') (cache_table example_cache)) ''search_results''"
    by (simp add: generate_cache_key_def example_library_def example_cache_def example_row_def
          group_rows_def)
  have d: "map access_count (cache_table example_cache) = [7]"
    by (simp add: example_cache_def example_row_def)
  show ?thesis
    using set_resets_access_statistics [OF a b refl refl c, of 6 7]
    by (simp add: set_cache_example d)
qed

section \<open>Properties of the batch processor\<close>

subsection \<open>The pool of the threaded scheduler\<close>

text \<open>
  In every state a run of the threaded scheduler reaches, the agents in the pool together
  with the agents the workers hold are exactly the agents created by the constructor.
\<close>

lemma sum_list_map_update:
  fixes f :: "'a \<Rightarrow> 'b::cancel_comm_monoid_add"
  shows "i < length ws \<Longrightarrow>
    sum_list (map f (ws[i := w])) + f (ws ! i) = sum_list (map f ws) + f w"
proof (induction ws arbitrary: i)
  case Nil
  then show ?case by simp
next
  case (Cons x ws)
  show ?case
  proof (cases i)
    case 0
    then show ?thesis by (simp add: ac_simps)
  next
    case (Suc k)
    with Cons.prems have "k < length ws" by simp
    from Cons.IH[OF this] show ?thesis using Suc by (simp add: ac_simps)
  qed
qed

lemma checked_out_set_worker:
  assumes "worker_at s i = Some w0"
  shows "checked_out (set_worker s i w) + held_by w0 = checked_out s + held_by w"
proof -
  from assms have i: "i < length (workers s)" and w0: "workers s ! i = w0"
    by (auto simp: worker_at_def split: if_splits)
  show ?thesis
    using sum_list_map_update[OF i, of held_by w]
    by (simp add: checked_out_def set_worker_def w0)
qed

lemma checked_out_pool_update:
  "checked_out (s\<lparr>agents_pool := p\<rparr>) = checked_out s"
  "checked_out (s\<lparr>job_queue := q\<rparr>) = checked_out s"
  "checked_out (s\<lparr>results_queue := r\<rparr>) = checked_out s"
  "checked_out (s\<lparr>stats := st\<rparr>) = checked_out s"
  "checked_out (s\<lparr>unfinished_tasks := u\<rparr>) = checked_out s"
  "checked_out (s\<lparr>is_running := b\<rparr>) = checked_out s"
  by (simp_all add: checked_out_def)

lemma worker_at_update:
  "worker_at (s\<lparr>agents_pool := p\<rparr>) i = worker_at s i"
  "worker_at (s\<lparr>job_queue := q\<rparr>) i = worker_at s i"
  "worker_at (s\<lparr>results_queue := r\<rparr>) i = worker_at s i"
  "worker_at (s\<lparr>stats := st\<rparr>) i = worker_at s i"
  "worker_at (s\<lparr>unfinished_tasks := u\<rparr>) i = worker_at s i"
  by (simp_all add: worker_at_def)

lemma set_worker_fields:
  "agents_pool (set_worker s i w) = agents_pool s"
  "max_workers (set_worker s i w) = max_workers s"
  "job_queue (set_worker s i w) = job_queue s"
  "results_queue (set_worker s i w) = results_queue s"
  "stats (set_worker s i w) = stats s"
  "is_running (set_worker s i w) = is_running s"
  "unfinished_tasks (set_worker s i w) = unfinished_tasks s"
  by (simp_all add: set_worker_def)

lemma sum_list_replicate_empty: "sum_list (replicate n ({#} :: 'a multiset)) = {#}"
  by (induction n) auto

lemma pool_inv_neutral:
  assumes "pool_inv s" and "worker_at s i = Some w0" and "held_by w0 = {#}"
    and "held_by w = {#}" and "agents_pool s1 = agents_pool s"
    and "max_workers s1 = max_workers s" and "workers s1 = workers s"
  shows "pool_inv (set_worker s1 i w)"
proof -
  have w: "worker_at s1 i = Some w0"
    using assms(2,7) by (simp add: worker_at_def split: if_splits)
  have "checked_out (set_worker s1 i w) = checked_out s1"
    using checked_out_set_worker[OF w, of w] assms(3,4) by simp
  also have "\<dots> = checked_out s"
    by (simp add: checked_out_def assms(7))
  finally show ?thesis
    using assms(1,5,6) by (simp add: pool_inv_def set_worker_fields)
qed

lemma step_pool_inv:
  assumes "step e s = Some s'" and "pool_inv s"
  shows "pool_inv s'"
proof (cases e)
  case Start_Workers
  with assms(1) have "s' = s \<or>
      s' = s\<lparr>is_running := True, workers := workers s @ replicate (nat (max_workers s)) Idle\<rparr>"
    by (simp split: if_splits)
  with assms(2) show ?thesis
    by (auto simp: pool_inv_def checked_out_def held_by_def sum_list_replicate_empty)
next
  case Stop_Workers
  with assms(1) have "s' = s \<or> s' = s\<lparr>is_running := False\<rparr>"
    by (simp split: if_splits)
  with assms(2) show ?thesis by (auto simp: pool_inv_def checked_out_def)
next
  case (Submit j)
  with assms(1) have "s' = s\<lparr>job_queue := job_queue s @ [j],
                   unfinished_tasks := unfinished_tasks s + 1,
                   stats := (stats s)\<lparr>jobs_submitted := jobs_submitted (stats s) + 1\<rparr>\<rparr>"
    by (simp split: if_splits)
  with assms(2) show ?thesis by (simp add: pool_inv_def checked_out_def)
next
  case (Submit_Timeout j)
  with assms(1) have "s' = s" by (simp split: if_splits)
  with assms(2) show ?thesis by simp
next
  case (Enter i)
  with assms(1) have "worker_at s i = Some Idle" and "s' = set_worker s i Fetching"
    by (simp_all split: option.splits worker.splits if_splits)
  with assms(2) show ?thesis
    by (simp add: pool_inv_neutral[where s = s and ?w0.0 = Idle] held_by_def)
next
  case (Exit i)
  with assms(1) have "worker_at s i = Some Idle" and "s' = set_worker s i Stopped"
    by (simp_all split: option.splits worker.splits if_splits)
  with assms(2) show ?thesis
    by (simp add: pool_inv_neutral[where s = s and ?w0.0 = Idle] held_by_def)
next
  case (Fetch i)
  with assms(1) obtain j rest where "worker_at s i = Some Fetching"
    and "s' = set_worker (s\<lparr>job_queue := rest\<rparr>) i (Fetched j)"
    by (auto split: option.splits worker.splits list.splits)
  with assms(2) show ?thesis
    by (simp add: pool_inv_neutral[where s = s and ?w0.0 = Fetching] held_by_def)
next
  case (Fetch_Timeout i)
  with assms(1) have "worker_at s i = Some Fetching" and "s' = set_worker s i Idle"
    by (simp_all split: option.splits worker.splits if_splits)
  with assms(2) show ?thesis
    by (simp add: pool_inv_neutral[where s = s and ?w0.0 = Fetching] held_by_def)
next
  case (Acquire i)
  from assms(1) Acquire obtain j a rest where
    w: "worker_at s i = Some (Fetched j)" and p: "agents_pool s = a # rest"
    and s': "s' = set_worker (s\<lparr>agents_pool := rest\<rparr>) i (Executing j a)"
    by (auto split: option.splits worker.splits list.splits)
  have "worker_at (s\<lparr>agents_pool := rest\<rparr>) i = Some (Fetched j)"
    using w by (simp add: worker_at_update)
  from checked_out_set_worker[OF this, of "Executing j a"]
  have "checked_out s' = checked_out s + {#a#}"
    by (simp add: held_by_def s' checked_out_def)
  with assms(2) p show ?thesis by (simp add: pool_inv_def s' set_worker_def)
next
  case (Acquire_Timeout i)
  with assms(1) obtain j where "worker_at s i = Some (Fetched j)"
    and "s' = set_worker s i Idle"
    by (auto split: option.splits worker.splits if_splits)
  with assms(2) show ?thesis
    by (simp add: pool_inv_neutral[where s = s and ?w0.0 = "Fetched j"] held_by_def)
next
  case (Execute i out ptime now)
  from assms(1) Execute obtain j a where
    w: "worker_at s i = Some (Executing j a)"
    and s': "s' = set_worker (s\<lparr>agents_pool := agents_pool s @ [a]\<rparr>) i
                    (Publishing (make_result j out ptime now) ptime)"
    by (auto split: option.splits worker.splits if_splits)
  have "worker_at (s\<lparr>agents_pool := agents_pool s @ [a]\<rparr>) i = Some (Executing j a)"
    using w by (simp add: worker_at_update)
  from checked_out_set_worker[OF this, of "Publishing (make_result j out ptime now) ptime"]
  have "checked_out s' + {#a#} = checked_out s"
    by (simp add: held_by_def s' checked_out_def)
  then have "mset (agents_pool s) + {#a#} + checked_out s' = mset (agents_pool s) + checked_out s"
    by (metis add.assoc add.commute)
  with assms(2) show ?thesis by (simp add: pool_inv_def s' set_worker_def)
next
  case (Publish i)
  with assms(1) obtain jr ptime where "worker_at s i = Some (Publishing jr ptime)"
    and "s' = set_worker (s\<lparr>results_queue := results_queue s @ [jr]\<rparr>) i (Updating jr ptime)"
    by (auto split: option.splits worker.splits)
  with assms(2) show ?thesis
    by (simp add: pool_inv_neutral[where s = s and ?w0.0 = "Publishing jr ptime"] held_by_def)
next
  case (Update_Stats i)
  with assms(1) obtain jr ptime where "worker_at s i = Some (Updating jr ptime)"
    and "s' = set_worker (s\<lparr>stats := update_statistics (stats s) jr ptime\<rparr>) i Marking"
    by (auto split: option.splits worker.splits)
  with assms(2) show ?thesis
    by (simp add: pool_inv_neutral[where s = s and ?w0.0 = "Updating jr ptime"] held_by_def)
next
  case (Task_Done i)
  with assms(1) have w: "worker_at s i = Some Marking"
    and "s' = set_worker (if unfinished_tasks s = 0 then s
                   else s\<lparr>unfinished_tasks := unfinished_tasks s - 1\<rparr>) i Idle"
    by (auto split: option.splits worker.splits)
  with assms(2) show ?thesis
    by (simp add: pool_inv_neutral[where s = s and ?w0.0 = Marking] held_by_def)
qed

lemma run_pool_inv: "run es s = Some s' \<Longrightarrow> pool_inv s \<Longrightarrow> pool_inv s'"
  by (induction es arbitrary: s) (auto split: option.splits dest: step_pool_inv)

lemma init_pool_inv: "pool_inv (init mw mq)"
  by (simp add: pool_inv_def init_def checked_out_def)

lemma held_by_subset:
  "i < length ws \<Longrightarrow> f (ws ! i) \<subseteq># sum_list (map f ws)"
proof (induction ws arbitrary: i)
  case Nil
  then show ?case by simp
next
  case (Cons x ws)
  show ?case
  proof (cases i)
    case 0
    then show ?thesis by simp
  next
    case (Suc k)
    with Cons.prems have "k < length ws" by simp
    from Cons.IH[OF this] show ?thesis
      using Suc by (simp add: subset_mset.add_increasing)
  qed
qed

lemma executing_checked_out:
  assumes "worker_at s i = Some (Executing j a)"
  shows "a \<in># checked_out s"
proof -
  from assms have i: "i < length (workers s)" and w: "workers s ! i = Executing j a"
    by (auto simp: worker_at_def split: if_splits)
  from held_by_subset[OF i, of held_by] have "{#a#} \<subseteq># checked_out s"
    by (simp add: checked_out_def w held_by_def)
  then show ?thesis by simp
qed

lemma pool_not_full_while_executing:
  assumes "pool_inv s" and "worker_at s i = Some (Executing j a)"
  shows "\<not> queue_full (max_workers s) (agents_pool s)"
proof -
  from executing_checked_out[OF assms(2)] have "0 < size (checked_out s)"
    by (auto simp flip: nonempty_has_size)
  moreover from assms(1) have "size (mset (agents_pool s) + checked_out s) = nat (max_workers s)"
    by (simp add: pool_inv_def)
  ultimately have "length (agents_pool s) < nat (max_workers s)" by simp
  then show ?thesis unfolding queue_full_def by linarith
qed

lemma worker_at_set_worker:
  "i < length (workers s) \<Longrightarrow> worker_at (set_worker s i w) i = Some w"
  by (simp add: worker_at_def set_worker_def)

lemma length_workers_set_worker: "length (workers (set_worker s i w)) = length (workers s)"
  by (simp add: set_worker_def)

lemmas eval_defs = init_def example_job_def worker_at_def set_worker_def queue_full_def
  make_result_def candidates_of_def update_statistics_def Let_def

subsection \<open>One result per job\<close>

text \<open>
  Claim C1, on the code. One worker and one agent; the worker is executing job A when
  \<open>stop_workers\<close> gives up waiting for it and \<open>start_workers\<close> starts a second thread.
  The second thread dequeues job B, finds no agent within its timeout, and the \<open>Empty\<close>
  raised by \<open>agents_pool.get\<close> is caught by the handler meant for the job queue: the
  worker goes back to the loop head without a result for B and without \<open>task_done\<close>.
  When everything has drained, two jobs were accepted, one result exists, and
  \<open>unfinished_tasks\<close> is still 1, so \<open>join\<close> never returns.
\<close>

theorem acquire_timeout_drops_job:
  "map_option (\<lambda>s. (map job_result.job_id (results_queue s), job_queue s, workers s,
                      unfinished_tasks s, jobs_submitted (stats s)))
     (run dropped_job_run (init 1 100))
   = Some ([''A''], [], [Idle, Idle], 1, 2)"
  by (simp add: dropped_job_run_def eval_defs)

subsection \<open>The statistics\<close>

text \<open>
  Claim C2, on the code. The update under the lock increments \<open>jobs_completed\<close> once
  unconditionally and then increments \<open>jobs_completed\<close> or \<open>jobs_failed\<close> again, so every
  processed job adds 2 to \<open>jobs_completed + jobs_failed\<close>: after one submitted job that
  succeeded, \<open>jobs_submitted = 1\<close>, \<open>jobs_completed = 2\<close>, \<open>jobs_failed = 0\<close>, with one
  result in the results queue.
\<close>

theorem stats_count_each_job_twice:
  "jobs_completed (update_statistics st jr ptime) + jobs_failed (update_statistics st jr ptime)
     = jobs_completed st + jobs_failed st + 2
   \<and> map_option (\<lambda>s. (jobs_submitted (stats s), jobs_completed (stats s), jobs_failed (stats s),
                        length (results_queue s)))
       (run one_job_run (init 1 100)) = Some (1, 2, 0, 1)"
  by (simp add: one_job_run_def eval_defs)

subsection \<open>A unit of work that raises\<close>

text \<open>
  Claim C8. In any state a run of the threaded scheduler reaches, a worker that is
  executing job \<open>j\<close> with agent \<open>a\<close> finishes whatever the unit of work does: the agent
  goes back to the pool as the inner \<open>try\<close> is left, the worker publishes one result with
  the job's id, updates the statistics, marks the task done and is back at the loop head.
  When the unit of work raised, the result has \<open>success = False\<close> and carries the text
  \<open>Error processing job <id>: <message>\<close>, which is not empty.
\<close>

theorem failed_job_yields_result_and_releases_agent:
  assumes "run es (init mw mq) = Some s"
    and "worker_at s i = Some (Executing j a)"
  shows "\<exists>s1 s'. step (Execute i out ptime now) s = Some s1
       \<and> agents_pool s1 = agents_pool s @ [a]
       \<and> worker_at s1 i = Some (Publishing (make_result j out ptime now) ptime)
       \<and> run [Publish i, Update_Stats i, Task_Done i] s1 = Some s'
       \<and> results_queue s' = results_queue s @ [make_result j out ptime now]
       \<and> agents_pool s' = agents_pool s @ [a]
       \<and> worker_at s' i = Some Idle
       \<and> job_result.job_id (make_result j out ptime now) = job_request.job_id j
       \<and> (out = Raised msg \<longrightarrow>
            \<not> success (make_result j out ptime now) \<and>
            error (make_result j out ptime now) =
              Some (''Error processing job '' @ job_request.job_id j @ '': '' @ msg) \<and>
            error (make_result j out ptime now) \<noteq> Some [])"
proof -
  let ?jr = "make_result j out ptime now"
  have inv: "pool_inv s"
    using run_pool_inv[OF assms(1) init_pool_inv] .
  have nf: "\<not> queue_full (max_workers s) (agents_pool s)"
    using pool_not_full_while_executing[OF inv assms(2)] .
  from assms(2) have i: "i < length (workers s)"
    by (auto simp: worker_at_def split: if_splits)
  define s1 where "s1 = set_worker (s\<lparr>agents_pool := agents_pool s @ [a]\<rparr>) i (Publishing ?jr ptime)"
  define s2 where "s2 = set_worker (s1\<lparr>results_queue := results_queue s1 @ [?jr]\<rparr>) i
                          (Updating ?jr ptime)"
  define s3 where "s3 = set_worker (s2\<lparr>stats := update_statistics (stats s2) ?jr ptime\<rparr>) i Marking"
  define s4 where "s4 = set_worker (if unfinished_tasks s3 = 0 then s3
                   else s3\<lparr>unfinished_tasks := unfinished_tasks s3 - 1\<rparr>) i Idle"
  have e1: "step (Execute i out ptime now) s = Some s1"
    using assms(2) nf by (simp add: s1_def)
  have l1: "i < length (workers s1)"
    using i by (simp add: s1_def set_worker_def)
  have w1: "worker_at s1 i = Some (Publishing ?jr ptime)"
    using i by (simp add: s1_def worker_at_def set_worker_def)
  have e2: "step (Publish i) s1 = Some s2"
    using w1 by (simp add: s2_def)
  have l2: "i < length (workers s2)"
    using l1 by (simp add: s2_def set_worker_def)
  have w2: "worker_at s2 i = Some (Updating ?jr ptime)"
    using l1 by (simp add: s2_def worker_at_def set_worker_def)
  have e3: "step (Update_Stats i) s2 = Some s3"
    using w2 by (simp add: s3_def)
  have l3: "i < length (workers s3)"
    using l2 by (simp add: s3_def set_worker_def)
  have w3: "worker_at s3 i = Some Marking"
    using l2 by (simp add: s3_def worker_at_def set_worker_def)
  have e4: "step (Task_Done i) s3 = Some s4"
    using w3 by (simp add: s4_def)
  have w4: "worker_at s4 i = Some Idle"
    using l3 by (simp add: s4_def worker_at_def set_worker_def)
  have r: "run [Publish i, Update_Stats i, Task_Done i] s1 = Some s4"
    by (simp add: e2 e3 e4 del: step.simps)
  have p1: "agents_pool s1 = agents_pool s @ [a]"
    by (simp add: s1_def set_worker_def)
  have p4: "agents_pool s4 = agents_pool s @ [a]"
    by (simp add: s4_def s3_def s2_def p1 set_worker_def)
  have q4: "results_queue s4 = results_queue s @ [?jr]"
    by (simp add: s4_def s3_def s2_def s1_def set_worker_def)
  have id: "job_result.job_id ?jr = job_request.job_id j"
    by (cases out) (simp_all add: make_result_def)
  have f: "out = Raised msg \<longrightarrow>
            \<not> success ?jr \<and>
            error ?jr = Some (''Error processing job '' @ job_request.job_id j @ '': '' @ msg) \<and>
            error ?jr \<noteq> Some []"
    by (simp add: make_result_def)
  show ?thesis
    using e1 p1 w1 r q4 p4 w4 id f by blast
qed

theorem failed_job_yields_result_and_releases_agent_witness:
  "map_option (\<lambda>s. (agents_pool s, workers s)) (run executing_run (init 1 100))
     = Some ([], [Executing (example_job ''A'') 0])
   \<and> map_option (\<lambda>s. (map job_result.job_id (results_queue s), map success (results_queue s),
                        map error (results_queue s), agents_pool s, workers s))
       (run (executing_run @ [Execute 0 (Raised ''boom'') 3 9, Publish 0, Update_Stats 0,
                              Task_Done 0]) (init 1 100))
     = Some ([''A''], [False], [Some ''Error processing job A: boom''], [0], [Idle])"
proof -
  obtain s where r: "run executing_run (init 1 100) = Some s"
    and w: "worker_at s 0 = Some (Executing (example_job ''A'') 0)"
    by (simp add: executing_run_def eval_defs)
  note failed_job_yields_result_and_releases_agent [OF r w, of "Raised ''boom''" 3 9 "''boom''"]
  then show ?thesis
    by (simp add: executing_run_def eval_defs)
qed

subsection \<open>Exclusive use of an agent\<close>

text \<open>
  Claim C9, on the code. The cooperative scheduler selects the agent of a task as
  \<open>agents[len(results) % len(agents)]\<close>, and \<open>results\<close> grows only when a task ends:
  with two agents and two jobs, both tasks pass the semaphore before either ends, and both
  run in the executor with agent 0.
\<close>

theorem async_tasks_share_agent:
  "map_option (\<lambda>p. (tasks p, semaphore p))
     (Option.bind (async_init 2)
        (\<lambda>p. async_run [Admit 0, Admit 1]
               (process_jobs_start p [example_job ''A'', example_job ''B''])))
   = Some ([Running (example_job ''A'') (Some 0), Running (example_job ''B'') (Some 0)], 0)"
  by (simp add: async_init_def process_jobs_start_def select_agent_def)

end
